theory Spec2Isabelle
  imports Complex_Main "HOL-Library.AList"
begin

section \<open>Python values and exceptions\<close>

text \<open>
  The two room-detection scripts (\<^verbatim>\<open>roomDetection.py\<close>, the seed-anchored variant, and
  \<^verbatim>\<open>enhancedRoomDetection.py\<close>, the wall-reconstruction variant) compute with Python
  integers and floats. Integers are modelled as \<^typ>\<open>int\<close>; floats are modelled as
  \<^typ>\<open>real\<close>, so the rounding of IEEE doubles is abstracted away. An exception raised by
  the source is the \<open>Inl\<close> branch of a sum type.
\<close>

datatype py_error = FileNotFoundError | ValueError | ZeroDivisionError | KeyError

datatype py_val =
    PyStr string
  | PyInt int
  | PyFloat real
  | PyPoints "(int \<times> int) list"

section \<open>Room classifier\<close>

subsection \<open>Seed-anchored variant: \<^verbatim>\<open>roomDetection.classify_room_type\<close>\<close>

text \<open>
  \<^verbatim>\<open>area_ratio = area / total_area\<close> divides a float by the Python integer
  \<^verbatim>\<open>height * width\<close>; Python raises \<^verbatim>\<open>ZeroDivisionError\<close> when the divisor is zero.
\<close>

definition classify_room_type :: "real \<Rightarrow> real \<Rightarrow> int \<Rightarrow> py_error + string" where
  "classify_room_type area aspect_ratio total_area =
     (if total_area = 0 then Inl ZeroDivisionError
      else let area_ratio = area / real_of_int total_area in
        if area_ratio > 0.25 then
          (if aspect_ratio > 3.0 then Inr ''hallway''
           else Inr ''hall'')
        else if area_ratio > 0.15 then
          (if 0.7 < aspect_ratio \<and> aspect_ratio < 1.3 then Inr ''conference''
           else if aspect_ratio > 2.0 then Inr ''hallway''
           else Inr ''classroom'')
        else if area_ratio > 0.05 then
          (if 0.7 < aspect_ratio \<and> aspect_ratio < 1.3 then Inr ''office''
           else if aspect_ratio > 3.0 then Inr ''hallway''
           else Inr ''laboratory'')
        else if area_ratio > 0.02 then
          (if 0.7 < aspect_ratio \<and> aspect_ratio < 1.3 then Inr ''storage''
           else if aspect_ratio > 2.5 then Inr ''corridor''
           else Inr ''office'')
        else
          (if 0.7 < aspect_ratio \<and> aspect_ratio < 1.3 then Inr ''utility''
           else if aspect_ratio > 3.0 then Inr ''corridor''
           else Inr ''storage''))"

subsection \<open>Wall-reconstruction variant: \<^verbatim>\<open>enhancedRoomDetection.classify_room_type\<close>\<close>

definition ROOM_TYPES :: "(string \<times> string) list" where
  "ROOM_TYPES =
     [(''large_square'', ''office''),
      (''large_rectangle'', ''classroom''),
      (''medium_square'', ''conference''),
      (''small_square'', ''storage''),
      (''small_rectangle'', ''restroom''),
      (''corridor'', ''hallway''),
      (''entrance'', ''reception''),
      (''tiny'', ''utility'')]"

text \<open>Subscripting the dictionary: a missing key raises \<^verbatim>\<open>KeyError\<close>.\<close>

definition room_types_get :: "string \<Rightarrow> py_error + string" where
  "room_types_get k = (case map_of ROOM_TYPES k of None \<Rightarrow> Inl KeyError | Some v \<Rightarrow> Inr v)"

definition classify_room_type_enhanced :: "real \<Rightarrow> real \<Rightarrow> int \<Rightarrow> py_error + string" where
  "classify_room_type_enhanced area aspect_ratio total_area =
     (if total_area = 0 then Inl ZeroDivisionError
      else let rel_area = area / real_of_int total_area in
        if rel_area > 0.15 then
          (if 0.75 < aspect_ratio \<and> aspect_ratio < 1.5 then room_types_get ''large_square''
           else room_types_get ''large_rectangle'')
        else if rel_area > 0.05 then
          (if 0.75 < aspect_ratio \<and> aspect_ratio < 1.5 then room_types_get ''medium_square''
           else if aspect_ratio > 3.0 then room_types_get ''corridor''
           else room_types_get ''large_rectangle'')
        else if rel_area > 0.01 then
          (if 0.75 < aspect_ratio \<and> aspect_ratio < 1.5 then room_types_get ''small_square''
           else room_types_get ''small_rectangle'')
        else
          (if aspect_ratio > 3.0 then room_types_get ''corridor''
           else room_types_get ''tiny''))"

text \<open>The label sets the classifiers draw from.\<close>

definition seed_labels :: "string set" where
  "seed_labels = {''hallway'', ''hall'', ''conference'', ''classroom'', ''office'',
                  ''laboratory'', ''storage'', ''corridor'', ''utility''}"

definition room_types_values :: "string set" where
  "room_types_values = snd ` set ROOM_TYPES"


subsection \<open>The ordered threshold bands, as the design document words them\<close>

text \<open>
  The classifier is described as a table of size bands on \<open>rel = area / total_area\<close>, each
  with its own rule on the aspect ratio. The bands below are written as two-sided intervals,
  independently of the order in which the source tests them.
\<close>

datatype size_band = VeryLarge | Large | Medium | Small | VerySmall

fun in_band :: "size_band \<Rightarrow> real \<Rightarrow> bool" where
  "in_band VeryLarge rel = (0.25 < rel)"
| "in_band Large rel = (0.15 < rel \<and> rel \<le> 0.25)"
| "in_band Medium rel = (0.05 < rel \<and> rel \<le> 0.15)"
| "in_band Small rel = (0.02 < rel \<and> rel \<le> 0.05)"
| "in_band VerySmall rel = (rel \<le> 0.02)"

fun band_label :: "size_band \<Rightarrow> real \<Rightarrow> string" where
  "band_label VeryLarge ar = (if ar > 3.0 then ''hallway'' else ''hall'')"
| "band_label Large ar =
     (if 0.7 < ar \<and> ar < 1.3 then ''conference''
      else if ar > 2.0 then ''hallway'' else ''classroom'')"
| "band_label Medium ar =
     (if 0.7 < ar \<and> ar < 1.3 then ''office''
      else if ar > 3.0 then ''hallway'' else ''laboratory'')"
| "band_label Small ar =
     (if 0.7 < ar \<and> ar < 1.3 then ''storage''
      else if ar > 2.5 then ''corridor'' else ''office'')"
| "band_label VerySmall ar =
     (if 0.7 < ar \<and> ar < 1.3 then ''utility''
      else if ar > 3.0 then ''corridor'' else ''storage'')"

datatype size_band_enhanced = LargeRooms | MediumRooms | SmallRooms | TinyRooms

fun in_band_enhanced :: "size_band_enhanced \<Rightarrow> real \<Rightarrow> bool" where
  "in_band_enhanced LargeRooms rel = (0.15 < rel)"
| "in_band_enhanced MediumRooms rel = (0.05 < rel \<and> rel \<le> 0.15)"
| "in_band_enhanced SmallRooms rel = (0.01 < rel \<and> rel \<le> 0.05)"
| "in_band_enhanced TinyRooms rel = (rel \<le> 0.01)"

fun band_label_enhanced :: "size_band_enhanced \<Rightarrow> real \<Rightarrow> string" where
  "band_label_enhanced LargeRooms ar =
     (if 0.75 < ar \<and> ar < 1.5 then ''office'' else ''classroom'')"
| "band_label_enhanced MediumRooms ar =
     (if 0.75 < ar \<and> ar < 1.5 then ''conference''
      else if ar > 3.0 then ''hallway'' else ''classroom'')"
| "band_label_enhanced SmallRooms ar =
     (if 0.75 < ar \<and> ar < 1.5 then ''storage'' else ''restroom'')"
| "band_label_enhanced TinyRooms ar = (if ar > 3.0 then ''hallway'' else ''utility'')"

section \<open>Rooms\<close>

text \<open>
  A room is a Python dictionary with a fixed set of keys. \<^verbatim>\<open>find_room_polygons\<close> of the
  wall-reconstruction variant builds the seven geometric keys; the orchestrator then adds
  \<^verbatim>\<open>type\<close>, \<^verbatim>\<open>id\<close>, \<^verbatim>\<open>name\<close> and \<^verbatim>\<open>confidence\<close>. The seed-anchored variant builds all
  eleven keys at once and stores \<^verbatim>\<open>int(area)\<close>, an integral value, under \<^verbatim>\<open>area\<close>.
\<close>

record room_polygon =
  rp_contour :: "(int \<times> int) list"
  rp_x :: int
  rp_y :: int
  rp_width :: int
  rp_height :: int
  rp_area :: real
  rp_aspect_ratio :: real

record room = room_polygon +
  room_type :: string
  room_id :: string
  room_name :: string
  room_confidence :: real

text \<open>\<^verbatim>\<open>int(v)\<close> on a float truncates towards zero.\<close>

definition py_int :: "real \<Rightarrow> int" where
  "py_int v = (if 0 \<le> v then \<lfloor>v\<rfloor> else \<lceil>v\<rceil>)"

text \<open>\<^verbatim>\<open>room.items()\<close>, in the insertion order of each variant.\<close>

definition room_items :: "room \<Rightarrow> (string \<times> py_val) list" where
  "room_items r =
     [(''id'', PyStr (room_id r)),
      (''name'', PyStr (room_name r)),
      (''type'', PyStr (room_type r)),
      (''x'', PyInt (rp_x r)),
      (''y'', PyInt (rp_y r)),
      (''width'', PyInt (rp_width r)),
      (''height'', PyInt (rp_height r)),
      (''area'', PyInt (py_int (rp_area r))),
      (''aspect_ratio'', PyFloat (rp_aspect_ratio r)),
      (''confidence'', PyFloat (room_confidence r)),
      (''contour'', PyPoints (rp_contour r))]"

definition room_items_enhanced :: "room \<Rightarrow> (string \<times> py_val) list" where
  "room_items_enhanced r =
     [(''contour'', PyPoints (rp_contour r)),
      (''x'', PyInt (rp_x r)),
      (''y'', PyInt (rp_y r)),
      (''width'', PyInt (rp_width r)),
      (''height'', PyInt (rp_height r)),
      (''area'', PyFloat (rp_area r)),
      (''aspect_ratio'', PyFloat (rp_aspect_ratio r)),
      (''type'', PyStr (room_type r)),
      (''id'', PyStr (room_id r)),
      (''name'', PyStr (room_name r)),
      (''confidence'', PyFloat (room_confidence r))]"

section \<open>Overlap resolver\<close>

text \<open>
  The intersection of the two bounding boxes, as both scripts compute it
  (\<^verbatim>\<open>overlap_x * overlap_y\<close>, \<^verbatim>\<open>x_overlap * y_overlap\<close>).
\<close>

definition overlap_area :: "('a room_polygon_scheme) \<Rightarrow> ('a room_polygon_scheme) \<Rightarrow> int" where
  "overlap_area room existing =
     (let x1 = rp_x room; y1 = rp_y room; w1 = rp_width room; h1 = rp_height room;
          x2 = rp_x existing; y2 = rp_y existing;
          w2 = rp_width existing; h2 = rp_height existing;
          overlap_x = max 0 (min (x1 + w1) (x2 + w2) - max x1 x2);
          overlap_y = max 0 (min (y1 + h1) (y2 + h2) - max y1 y2)
      in overlap_x * overlap_y)"

text \<open>
  The inner loop over \<^verbatim>\<open>filtered_rooms\<close>: \<^verbatim>\<open>should_add\<close> becomes false, and the loop
  breaks, at the first accepted room that the candidate overlaps significantly. The two
  scripts differ in the factor only (0.7 and 0.6), which is the first argument here.
\<close>

fun should_add :: "real \<Rightarrow> ('a room_polygon_scheme) \<Rightarrow> ('a room_polygon_scheme) list \<Rightarrow> bool" where
  "should_add factor room [] = True"
| "should_add factor room (existing # rest) =
     (if real_of_int (overlap_area room existing)
           > factor * min (rp_area room) (rp_area existing)
      then False
      else should_add factor room rest)"

text \<open>The outer loop, with \<^verbatim>\<open>filtered_rooms\<close> as the accumulator.\<close>

fun filter_loop :: "real \<Rightarrow> ('a room_polygon_scheme) list \<Rightarrow> ('a room_polygon_scheme) list
                    \<Rightarrow> ('a room_polygon_scheme) list" where
  "filter_loop factor [] filtered_rooms = filtered_rooms"
| "filter_loop factor (room # rest) filtered_rooms =
     filter_loop factor rest
       (if should_add factor room filtered_rooms then filtered_rooms @ [room]
        else filtered_rooms)"

text \<open>
  \<^verbatim>\<open>sorted(rooms, key=lambda r: r['area'], reverse=True)\<close>: a stable sort into descending
  order of the key, which is a stable ascending sort on the negated key.
\<close>

definition sorted_by_area_desc :: "('a room_polygon_scheme) list \<Rightarrow> ('a room_polygon_scheme) list" where
  "sorted_by_area_desc rooms = sort_key (\<lambda>r. - rp_area r) rooms"

text \<open>The dedup loop of \<^verbatim>\<open>roomDetection.process_floorplan\<close>.\<close>

definition dedup_rooms :: "room list \<Rightarrow> room list" where
  "dedup_rooms rooms = filter_loop 0.7 (sorted_by_area_desc rooms) []"

text \<open>\<^verbatim>\<open>enhancedRoomDetection.remove_overlapping_rooms\<close>.\<close>

definition remove_overlapping_rooms :: "room list \<Rightarrow> room list" where
  "remove_overlapping_rooms rooms =
     (if rooms = [] then []
      else filter_loop 0.6 (sorted_by_area_desc rooms) [])"

subsection \<open>The resolver as the design document words it\<close>

text \<open>
  Sort descending by area; accept a room only if, for every already accepted room, the
  intersection does not exceed the factor times the smaller of the two areas.
\<close>

definition accepts :: "real \<Rightarrow> ('a room_polygon_scheme) list \<Rightarrow> ('a room_polygon_scheme) \<Rightarrow> bool" where
  "accepts factor accepted room =
     (\<forall>existing \<in> set accepted.
        real_of_int (overlap_area room existing)
          \<le> factor * min (rp_area room) (rp_area existing))"


text \<open>No two rooms at different positions of the list overlap significantly.\<close>

definition overlap_free :: "real \<Rightarrow> ('a room_polygon_scheme) list \<Rightarrow> bool" where
  "overlap_free factor xs =
     (\<forall>i j. i \<noteq> j \<and> i < length xs \<and> j < length xs \<longrightarrow>
        real_of_int (overlap_area (xs ! i) (xs ! j))
          \<le> factor * min (rp_area (xs ! i)) (rp_area (xs ! j)))"

section \<open>The OpenCV collaborators\<close>

text \<open>
  Contours come from \<^verbatim>\<open>cv2.findContours\<close>. A contour is modelled together with the two
  measurements the scripts take of it, \<^verbatim>\<open>cv2.contourArea\<close> and \<^verbatim>\<open>cv2.boundingRect\<close>.
\<close>

record cv_contour =
  cv_points :: "(int \<times> int) list"
  cv_contourArea :: real
  cv_boundingRect :: "int \<times> int \<times> int \<times> int"

text \<open>
  What \<^verbatim>\<open>roomDetection.py\<close> reads from a decoded image: its shape, its grayscale
  (\<open>fp_gray img row column\<close>), the boxes \<^verbatim>\<open>detect_text_regions\<close> returns, and, for a seed
  point and a text box, the external contours of the flood-filled, range-masked and patched
  room mask (steps 3 to 6 of \<^verbatim>\<open>get_room_contour\<close>, all of them OpenCV calls).
\<close>

record floorplan =
  fp_height :: int
  fp_width :: int
  fp_gray :: "int \<Rightarrow> int \<Rightarrow> nat"
  fp_text_regions :: "(int \<times> int \<times> int \<times> int) list"
  fp_room_mask_contours :: "(int \<times> int) \<Rightarrow> (int \<times> int \<times> int \<times> int) \<Rightarrow> cv_contour list"

text \<open>
  What \<^verbatim>\<open>enhancedRoomDetection.py\<close> reads: the shape, the external contours of the closed
  canvas of Hough lines, and \<^verbatim>\<open>cv2.approxPolyDP\<close> at one percent of the arc length.
\<close>

record wallplan =
  wp_height :: int
  wp_width :: int
  wp_contours :: "cv_contour list"
  wp_approxPolyDP :: "cv_contour \<Rightarrow> cv_contour"

text \<open>What \<^verbatim>\<open>load_image\<close> finds at the path.\<close>

datatype 'a image_file = Missing | Undecodable | Decoded 'a

definition load_image :: "'a image_file \<Rightarrow> py_error + 'a" where
  "load_image f =
     (case f of
        Missing \<Rightarrow> Inl FileNotFoundError
      | Undecodable \<Rightarrow> Inl ValueError
      | Decoded img \<Rightarrow> Inr img)"

section \<open>Region locator, seed-anchored\<close>

text \<open>\<^verbatim>\<open>cv2.threshold(gray, thresh, 255, cv2.THRESH_BINARY)\<close>.\<close>

definition threshold_binary :: "nat \<Rightarrow> (int \<Rightarrow> int \<Rightarrow> nat) \<Rightarrow> int \<Rightarrow> int \<Rightarrow> nat" where
  "threshold_binary thresh gray = (\<lambda>row col. if gray row col > thresh then 255 else 0)"

text \<open>The loop over \<^verbatim>\<open>seed_points\<close>, which breaks at the first acceptable point.\<close>

fun first_seed :: "int \<Rightarrow> int \<Rightarrow> (int \<Rightarrow> int \<Rightarrow> nat) \<Rightarrow> (int \<times> int) list \<Rightarrow> (int \<times> int) option" where
  "first_seed width height binary [] = None"
| "first_seed width height binary ((sx, sy) # rest) =
     (if 0 \<le> sx \<and> sx < width \<and> 0 \<le> sy \<and> sy < height \<and> binary sy sx = 255
      then Some (sx, sy)
      else first_seed width height binary rest)"

definition select_seed_point :: "floorplan \<Rightarrow> int \<times> int \<times> int \<times> int \<Rightarrow> int \<times> int" where
  "select_seed_point img text_region =
     (case text_region of (x, y, w, h) \<Rightarrow>
        let height = fp_height img; width = fp_width img;
            binary = threshold_binary 200 (fp_gray img);
            center_x = x + w div 2;
            center_y = y + h div 2;
            seed_points = [(center_x, center_y - h), (center_x, center_y + h),
                           (center_x - w, center_y), (center_x + w, center_y)]
        in (case first_seed width height binary seed_points of
              None \<Rightarrow> (center_x, center_y)
            | Some seed_point \<Rightarrow> seed_point))"

text \<open>
  A candidate seed qualifies when it lies inside the image bounds and on a pixel of value
  255 of the binarized image.
\<close>

definition qualifies :: "floorplan \<Rightarrow> int \<times> int \<Rightarrow> bool" where
  "qualifies img p =
     (case p of (sx, sy) \<Rightarrow>
        0 \<le> sx \<and> sx < fp_width img \<and> 0 \<le> sy \<and> sy < fp_height img
        \<and> threshold_binary 200 (fp_gray img) sy sx = 255)"

text \<open>\<^verbatim>\<open>max(contours, key=cv2.contourArea)\<close>: the first element of greatest key.\<close>

fun max_by_key :: "('a \<Rightarrow> real) \<Rightarrow> 'a \<Rightarrow> 'a list \<Rightarrow> 'a" where
  "max_by_key key best [] = best"
| "max_by_key key best (c # cs) = max_by_key key (if key c > key best then c else best) cs"

definition get_room_contour :: "floorplan \<Rightarrow> int \<times> int \<times> int \<times> int \<Rightarrow> cv_contour option" where
  "get_room_contour img text_region =
     (let seed_point = select_seed_point img text_region;
          contours = fp_room_mask_contours img seed_point text_region
      in case contours of
           [] \<Rightarrow> None
         | c # cs \<Rightarrow> Some (max_by_key cv_contourArea c cs))"

section \<open>Polygon builder\<close>

text \<open>\<^verbatim>\<open>float(w) / h if h > 0 else 0\<close>.\<close>

definition aspect_of :: "int \<Rightarrow> int \<Rightarrow> real" where
  "aspect_of w h = (if h > 0 then real_of_int w / real_of_int h else 0)"

text \<open>\<^verbatim>\<open>str(n)\<close> for a natural number.\<close>

fun str_nat :: "nat \<Rightarrow> string" where
  "str_nat n =
     (if n < 10 then [''0123456789'' ! n]
      else str_nat (n div 10) @ [''0123456789'' ! (n mod 10)])"

declare str_nat.simps [simp del]

text \<open>
  The loop of \<^verbatim>\<open>process_floorplan\<close> over the text regions. \<open>uuids k\<close> is the text of the
  \<open>k\<close>-th identifier \<^verbatim>\<open>uuid.uuid4()\<close> hands out; one is drawn for each room appended.
\<close>

fun detect_rooms :: "floorplan \<Rightarrow> (nat \<Rightarrow> string) \<Rightarrow> (int \<times> int \<times> int \<times> int) list
                     \<Rightarrow> room list \<Rightarrow> py_error + room list" where
  "detect_rooms img uuids [] rooms = Inr rooms"
| "detect_rooms img uuids (region # rest) rooms =
     (case get_room_contour img region of
        None \<Rightarrow> detect_rooms img uuids rest rooms
      | Some contour \<Rightarrow>
          (case cv_boundingRect contour of (x, y, w, h) \<Rightarrow>
             let total_area = fp_height img * fp_width img;
                 area = cv_contourArea contour;
                 aspect_ratio = aspect_of w h;
                 min_area = real_of_int total_area * 0.003;
                 max_area = real_of_int total_area * 0.6
             in if min_area < area \<and> area < max_area
                   \<and> 0.1 < aspect_ratio \<and> aspect_ratio < 10
                then
                  (case classify_room_type area aspect_ratio total_area of
                     Inl e \<Rightarrow> Inl e
                   | Inr rtype \<Rightarrow>
                       detect_rooms img uuids rest
                         (rooms @
                          [\<lparr>rp_contour = cv_points contour,
                            rp_x = x, rp_y = y, rp_width = w, rp_height = h,
                            rp_area = real_of_int (py_int area),
                            rp_aspect_ratio = aspect_ratio,
                            room_type = rtype,
                            room_id = ''room-'' @ take 8 (uuids (length rooms)),
                            room_name = ''Room '' @ str_nat (length rooms + 1),
                            room_confidence = 0.85\<rparr>]))
                else detect_rooms img uuids rest rooms))"

text \<open>\<^verbatim>\<open>enhancedRoomDetection.find_room_polygons\<close>, from the contours on.\<close>

fun room_polygons_of :: "wallplan \<Rightarrow> cv_contour list \<Rightarrow> room_polygon list" where
  "room_polygons_of img [] = []"
| "room_polygons_of img (contour # rest) =
     (let min_area = real_of_int (wp_height img * wp_width img) * 0.003;
          max_area = real_of_int (wp_height img * wp_width img) * 0.5;
          area = cv_contourArea contour
      in if min_area < area \<and> area < max_area then
           (let approx = wp_approxPolyDP img contour
            in case cv_boundingRect approx of (x, y, w, h) \<Rightarrow>
                 let aspect_ratio = aspect_of w h
                 in if 0.2 < aspect_ratio \<and> aspect_ratio < 5.0
                    then \<lparr>rp_contour = cv_points approx,
                          rp_x = x, rp_y = y, rp_width = w, rp_height = h,
                          rp_area = area, rp_aspect_ratio = aspect_ratio\<rparr>
                         # room_polygons_of img rest
                    else room_polygons_of img rest)
         else room_polygons_of img rest)"

definition find_room_polygons :: "wallplan \<Rightarrow> room_polygon list" where
  "find_room_polygons img = room_polygons_of img (wp_contours img)"

subsection \<open>The bands of the polygon filter\<close>

text \<open>
  What the rooms of each variant satisfy. The seed-anchored room stores \<^verbatim>\<open>int(area)\<close>, so its
  stored area can lie below the lower bound of the filter, by less than one.
\<close>

definition seed_band :: "int \<Rightarrow> ('a room_polygon_scheme) \<Rightarrow> bool" where
  "seed_band total_area r =
     (real_of_int total_area * 0.003 - 1 < rp_area r
      \<and> rp_area r < real_of_int total_area * 0.6
      \<and> 0.1 < rp_aspect_ratio r \<and> rp_aspect_ratio r < 10)"

definition wall_band :: "int \<Rightarrow> ('a room_polygon_scheme) \<Rightarrow> bool" where
  "wall_band total_area r =
     (real_of_int total_area * 0.003 < rp_area r
      \<and> rp_area r < real_of_int total_area * 0.5
      \<and> 0.2 < rp_aspect_ratio r \<and> rp_aspect_ratio r < 5.0)"

section \<open>Pipeline orchestrator\<close>

text \<open>
  \<^verbatim>\<open>room_dict[k] = v\<close> on an insertion-ordered dictionary is \<^const>\<open>AList.update\<close>; the loop
  copies every item whose key is not \<^verbatim>\<open>contour\<close>.
\<close>

definition without_contour :: "(string \<times> py_val) list \<Rightarrow> (string \<times> py_val) list" where
  "without_contour items =
     fold (\<lambda>(k, v) room_dict. if k \<noteq> ''contour'' then AList.update k v room_dict else room_dict)
       items []"

record result =
  res_source :: string
  res_width :: int
  res_height :: int
  res_floor :: string
  res_rooms :: "(string \<times> py_val) list list"
  res_processingComplete :: bool

record result_enhanced = result +
  res_enhancedDetection :: bool

text \<open>
  \<^verbatim>\<open>roomDetection.process_floorplan\<close>. The floor token is parsed from the file name by a
  regular expression and is an argument here. The value is the record written as JSON
  together with the returned \<^verbatim>\<open>filtered_rooms\<close>; an exception is \<open>Inl\<close>.
\<close>

definition process_floorplan ::
    "string \<Rightarrow> string \<Rightarrow> (nat \<Rightarrow> string) \<Rightarrow> floorplan image_file \<Rightarrow> py_error + (result \<times> room list)" where
  "process_floorplan image_path floor_type uuids file =
     (case load_image file of
        Inl e \<Rightarrow> Inl e
      | Inr original \<Rightarrow>
          (case detect_rooms original uuids (fp_text_regions original) [] of
             Inl e \<Rightarrow> Inl e
           | Inr rooms \<Rightarrow>
               let filtered_rooms = dedup_rooms rooms;
                   rooms_json = map (\<lambda>room. without_contour (room_items room)) filtered_rooms
               in Inr (\<lparr>res_source = image_path,
                         res_width = fp_width original,
                         res_height = fp_height original,
                         res_floor = floor_type,
                         res_rooms = rooms_json,
                         res_processingComplete = True\<rparr>,
                       filtered_rooms)))"

text \<open>\<^verbatim>\<open>str.capitalize\<close> on ASCII text.\<close>

definition ascii_upper :: "char \<Rightarrow> char" where
  "ascii_upper c = (if 97 \<le> (of_char c :: nat) \<and> (of_char c :: nat) \<le> 122
                    then char_of ((of_char c :: nat) - 32) else c)"

definition ascii_lower :: "char \<Rightarrow> char" where
  "ascii_lower c = (if 65 \<le> (of_char c :: nat) \<and> (of_char c :: nat) \<le> 90
                    then char_of ((of_char c :: nat) + 32) else c)"

definition capitalize :: "string \<Rightarrow> string" where
  "capitalize s = (case s of [] \<Rightarrow> [] | c # cs \<Rightarrow> ascii_upper c # map ascii_lower cs)"

text \<open>
  Step 8 of \<^verbatim>\<open>process_floor_plan\<close>: each polygon receives its type, id, name and confidence;
  two identifiers are drawn for each room.
\<close>

fun annotate_rooms :: "int \<Rightarrow> (nat \<Rightarrow> string) \<Rightarrow> nat \<Rightarrow> room_polygon list \<Rightarrow> py_error + room list" where
  "annotate_rooms total_area uuids k [] = Inr []"
| "annotate_rooms total_area uuids k (room # rest) =
     (case classify_room_type_enhanced (rp_area room) (rp_aspect_ratio room) total_area of
        Inl e \<Rightarrow> Inl e
      | Inr rtype \<Rightarrow>
          (case annotate_rooms total_area uuids (k + 2) rest of
             Inl e \<Rightarrow> Inl e
           | Inr rooms \<Rightarrow>
               Inr (\<lparr>rp_contour = rp_contour room,
                     rp_x = rp_x room, rp_y = rp_y room,
                     rp_width = rp_width room, rp_height = rp_height room,
                     rp_area = rp_area room, rp_aspect_ratio = rp_aspect_ratio room,
                     room_type = rtype,
                     room_id = ''room-'' @ take 8 (uuids k),
                     room_name = ''Room '' @ capitalize rtype @ '' '' @ take 4 (uuids (k + 1)),
                     room_confidence = 0.85\<rparr>
                    # rooms)))"

text \<open>\<^verbatim>\<open>enhancedRoomDetection.process_floor_plan\<close>.\<close>

definition process_floor_plan ::
    "string \<Rightarrow> string \<Rightarrow> (nat \<Rightarrow> string) \<Rightarrow> wallplan image_file
       \<Rightarrow> py_error + (result_enhanced \<times> room list)" where
  "process_floor_plan image_path floor_type uuids file =
     (case load_image file of
        Inl e \<Rightarrow> Inl e
      | Inr original_image \<Rightarrow>
          (let total_area = wp_height original_image * wp_width original_image;
               room_polygons = find_room_polygons original_image
           in case annotate_rooms total_area uuids 0 room_polygons of
                Inl e \<Rightarrow> Inl e
              | Inr rooms \<Rightarrow>
                  let filtered_rooms = remove_overlapping_rooms rooms;
                      rooms_json =
                        map (\<lambda>room. without_contour (room_items_enhanced room)) filtered_rooms
                  in Inr (\<lparr>res_source = image_path,
                            res_width = wp_width original_image,
                            res_height = wp_height original_image,
                            res_floor = floor_type,
                            res_rooms = rooms_json,
                            res_processingComplete = True,
                            res_enhancedDetection = True\<rparr>,
                          filtered_rooms)))"

section \<open>Example inputs\<close>

text \<open>A rectangular room, given by its bounding box and its area.\<close>

definition example_room :: "int \<Rightarrow> int \<Rightarrow> int \<Rightarrow> int \<Rightarrow> real \<Rightarrow> room" where
  "example_room x y w h a =
     \<lparr>rp_contour = [(x, y), (x + w, y), (x + w, y + h), (x, y + h)],
      rp_x = x, rp_y = y, rp_width = w, rp_height = h,
      rp_area = a, rp_aspect_ratio = aspect_of w h,
      room_type = ''office'', room_id = ''room-1a2b3c4d'', room_name = ''Room 1'',
      room_confidence = 0.85\<rparr>"

text \<open>
  Three rooms: the first lies with 80 percent of its area inside the third, the second is
  apart from both.
\<close>

definition example_rooms :: "room list" where
  "example_rooms =
     [example_room 60 0 50 40 2000, example_room 200 0 50 50 2500,
      example_room 0 0 100 100 10000]"

text \<open>The identifiers handed out in the examples.\<close>

definition example_uuids :: "nat \<Rightarrow> string" where
  "example_uuids k = ''1a2b3c4d-5e6f-4a1b-8c2d-3e4f5a6b7c8d''"

text \<open>An image that is wall everywhere, and one whose rows above 40 are wall.\<close>

definition wall_image :: floorplan where
  "wall_image =
     \<lparr>fp_height = 100, fp_width = 100, fp_gray = (\<lambda>row col. 0),
      fp_text_regions = [(40, 40, 10, 10)],
      fp_room_mask_contours = (\<lambda>seed region. [])\<rparr>"

definition half_wall_image :: floorplan where
  "half_wall_image =
     \<lparr>fp_height = 100, fp_width = 100, fp_gray = (\<lambda>row col. if row < 40 then 0 else 255),
      fp_text_regions = [(40, 40, 10, 10)],
      fp_room_mask_contours = (\<lambda>seed region. [])\<rparr>"

text \<open>An image whose patched room mask has two external contours.\<close>

definition big_contour :: cv_contour where
  "big_contour =
     \<lparr>cv_points = [(0, 0), (50, 0), (50, 40), (0, 40)],
      cv_contourArea = 2000, cv_boundingRect = (0, 0, 51, 41)\<rparr>"

definition small_contour :: cv_contour where
  "small_contour =
     \<lparr>cv_points = [(60, 60), (70, 60), (70, 70), (60, 70)],
      cv_contourArea = 100, cv_boundingRect = (60, 60, 11, 11)\<rparr>"

definition two_contour_image :: floorplan where
  "two_contour_image =
     \<lparr>fp_height = 100, fp_width = 100, fp_gray = (\<lambda>row col. 255),
      fp_text_regions = [(20, 20, 10, 5)],
      fp_room_mask_contours = (\<lambda>seed region. [small_contour, big_contour])\<rparr>"

text \<open>
  A 401 by 100 image with one hint whose room contour has area 120.5, just above the lower
  bound 120.3 of the filter, and the room the seed-anchored pipeline builds from it.
\<close>

definition sliver_contour :: cv_contour where
  "sliver_contour =
     \<lparr>cv_points = [(10, 10), (21, 10), (21, 20), (20, 21), (10, 21)],
      cv_contourArea = 120.5, cv_boundingRect = (10, 10, 12, 12)\<rparr>"

definition sliver_image :: floorplan where
  "sliver_image =
     \<lparr>fp_height = 100, fp_width = 401, fp_gray = (\<lambda>row col. 255),
      fp_text_regions = [(11, 11, 10, 10)],
      fp_room_mask_contours = (\<lambda>seed region. [sliver_contour])\<rparr>"

definition sliver_room :: room where
  "sliver_room =
     \<lparr>rp_contour = [(10, 10), (21, 10), (21, 20), (20, 21), (10, 21)],
      rp_x = 10, rp_y = 10, rp_width = 12, rp_height = 12,
      rp_area = 120, rp_aspect_ratio = 1,
      room_type = ''utility'', room_id = ''room-1a2b3c4d'', room_name = ''Room 1'',
      room_confidence = 0.85\<rparr>"

text \<open>The same image with a contour of area 100, below the lower bound.\<close>

definition reject_image :: floorplan where
  "reject_image = sliver_image\<lparr>fp_room_mask_contours := (\<lambda>seed region. [small_contour])\<rparr>"

text \<open>The reference scenario: a 200 by 150 room in a 400 by 300 image.\<close>

definition office_contour :: cv_contour where
  "office_contour =
     \<lparr>cv_points = [(100, 75), (299, 75), (299, 224), (100, 224)],
      cv_contourArea = 30000, cv_boundingRect = (100, 75, 200, 150)\<rparr>"

definition office_plan :: wallplan where
  "office_plan =
     \<lparr>wp_height = 300, wp_width = 400, wp_contours = [office_contour],
      wp_approxPolyDP = (\<lambda>contour. contour)\<rparr>"

text \<open>Images in which nothing is detected.\<close>

definition blank_image :: floorplan where
  "blank_image =
     \<lparr>fp_height = 300, fp_width = 400, fp_gray = (\<lambda>row col. 255),
      fp_text_regions = [],
      fp_room_mask_contours = (\<lambda>seed region. [])\<rparr>"

definition blank_plan :: wallplan where
  "blank_plan =
     \<lparr>wp_height = 300, wp_width = 400, wp_contours = [],
      wp_approxPolyDP = (\<lambda>contour. contour)\<rparr>"

section \<open>Theorems\<close>

lemma room_types_get_simps:
  "room_types_get ''large_square'' = Inr ''office''"
  "room_types_get ''large_rectangle'' = Inr ''classroom''"
  "room_types_get ''medium_square'' = Inr ''conference''"
  "room_types_get ''small_square'' = Inr ''storage''"
  "room_types_get ''small_rectangle'' = Inr ''restroom''"
  "room_types_get ''corridor'' = Inr ''hallway''"
  "room_types_get ''tiny'' = Inr ''utility''"
  by (simp_all add: room_types_get_def ROOM_TYPES_def)

text \<open>
  C6. Under the wall-reconstruction variant, a candidate whose area is a quarter of the image
  area and whose aspect ratio is 200/150 is labelled \<open>office\<close>; the reference scenario is the
  200 by 150 room in the 400 by 300 image.
\<close>

theorem classify_reference_scenario_office:
  "total_area > 0 \<Longrightarrow>
     classify_room_type_enhanced (0.25 * real_of_int total_area) (200 / 150) total_area
       = Inr ''office''"
  by (simp add: classify_room_type_enhanced_def room_types_get_simps)

theorem classify_reference_scenario_office_witness:
  "(400 * 300 :: int) > 0 \<and>
   classify_room_type_enhanced (200 * 150) (200 / 150) (400 * 300) = Inr ''office''"
  using classify_reference_scenario_office [of "400 * 300"] by simp

subsection \<open>Classifier\<close>

lemma in_band_unique: "\<exists>!b. in_band b rel"
proof -
  consider "0.25 < rel" | "0.15 < rel \<and> rel \<le> 0.25" | "0.05 < rel \<and> rel \<le> 0.15"
    | "0.02 < rel \<and> rel \<le> 0.05" | "rel \<le> 0.02" by linarith
  then show ?thesis
  proof cases
    case 1 then show ?thesis by (intro ex1I[of _ VeryLarge]) (auto elim: in_band.elims)
  next
    case 2 then show ?thesis by (intro ex1I[of _ Large]) (auto elim: in_band.elims)
  next
    case 3 then show ?thesis by (intro ex1I[of _ Medium]) (auto elim: in_band.elims)
  next
    case 4 then show ?thesis by (intro ex1I[of _ Small]) (auto elim: in_band.elims)
  next
    case 5 then show ?thesis by (intro ex1I[of _ VerySmall]) (auto elim: in_band.elims)
  qed
qed

lemma in_band_enhanced_unique: "\<exists>!b. in_band_enhanced b rel"
proof -
  consider "0.15 < rel" | "0.05 < rel \<and> rel \<le> 0.15"
    | "0.01 < rel \<and> rel \<le> 0.05" | "rel \<le> 0.01" by linarith
  then show ?thesis
  proof cases
    case 1 then show ?thesis by (intro ex1I[of _ LargeRooms]) (auto elim: in_band_enhanced.elims)
  next
    case 2 then show ?thesis by (intro ex1I[of _ MediumRooms]) (auto elim: in_band_enhanced.elims)
  next
    case 3 then show ?thesis by (intro ex1I[of _ SmallRooms]) (auto elim: in_band_enhanced.elims)
  next
    case 4 then show ?thesis by (intro ex1I[of _ TinyRooms]) (auto elim: in_band_enhanced.elims)
  qed
qed

text \<open>The if-chain of the source takes, in each band, the label the table gives.\<close>

lemma classify_rel:
  assumes "total_area \<noteq> 0" and r: "area / real_of_int total_area = rel" and "in_band b rel"
  shows "classify_room_type area ar total_area = Inr (band_label b ar)"
  unfolding classify_room_type_def Let_def r using assms(1,3) by (cases b) auto

lemma classify_rel_enhanced:
  assumes "total_area \<noteq> 0" and r: "area / real_of_int total_area = rel"
    and "in_band_enhanced b rel"
  shows "classify_room_type_enhanced area ar total_area = Inr (band_label_enhanced b ar)"
  unfolding classify_room_type_enhanced_def Let_def r using assms(1,3)
  by (cases b) (auto simp: room_types_get_simps)

lemma band_label_in: "band_label b ar \<in> seed_labels"
  by (cases b) (simp_all add: seed_labels_def)

lemma band_label_enhanced_in: "band_label_enhanced b ar \<in> room_types_values"
  by (cases b) (simp_all add: room_types_values_def ROOM_TYPES_def)

lemma classify_room_type_label:
  assumes "total_area \<noteq> 0"
  shows "\<exists>l \<in> seed_labels. classify_room_type area ar total_area = Inr l"
proof -
  obtain b where "in_band b (area / real_of_int total_area)"
    using in_band_unique by blast
  then have "classify_room_type area ar total_area = Inr (band_label b ar)"
    using assms classify_rel by blast
  then show ?thesis using band_label_in by blast
qed

lemma classify_room_type_enhanced_label:
  assumes "total_area \<noteq> 0"
  shows "\<exists>l \<in> room_types_values. classify_room_type_enhanced area ar total_area = Inr l"
proof -
  obtain b where "in_band_enhanced b (area / real_of_int total_area)"
    using in_band_enhanced_unique by blast
  then have "classify_room_type_enhanced area ar total_area = Inr (band_label_enhanced b ar)"
    using assms classify_rel_enhanced by blast
  then show ?thesis using band_label_enhanced_in by blast
qed

text \<open>
  C5. The classifier is a function of its three arguments, so equal arguments give equal
  results. For a nonzero total area the ratio \<open>area / total_area\<close> lies in exactly one size
  band of either variant, and the classifier returns the label that band assigns to the
  aspect ratio. At the boundary \<open>area / total_area = 0.15\<close> the band is the medium one in both
  variants, since the source tests \<open>> 0.15\<close> first and that test fails.
\<close>

theorem classify_room_type_deterministic:
  assumes "total_area \<noteq> 0"
  shows "(\<exists>!b. in_band b (area / real_of_int total_area))
       \<and> (\<forall>b. in_band b (area / real_of_int total_area) \<longrightarrow>
              classify_room_type area ar total_area = Inr (band_label b ar))
       \<and> (\<exists>!b. in_band_enhanced b (area / real_of_int total_area))
       \<and> (\<forall>b. in_band_enhanced b (area / real_of_int total_area) \<longrightarrow>
              classify_room_type_enhanced area ar total_area = Inr (band_label_enhanced b ar))
       \<and> (area / real_of_int total_area = 0.15 \<longrightarrow>
              classify_room_type area ar total_area = Inr (band_label Medium ar)
            \<and> classify_room_type_enhanced area ar total_area
                = Inr (band_label_enhanced MediumRooms ar))
       \<and> (\<forall>area' ar' total_area'.
              area' = area \<and> ar' = ar \<and> total_area' = total_area \<longrightarrow>
              classify_room_type area' ar' total_area' = classify_room_type area ar total_area
            \<and> classify_room_type_enhanced area' ar' total_area'
                = classify_room_type_enhanced area ar total_area)"
proof -
  have a: "\<forall>b. in_band b (area / real_of_int total_area) \<longrightarrow>
              classify_room_type area ar total_area = Inr (band_label b ar)"
    using assms classify_rel by blast
  have b: "\<forall>b. in_band_enhanced b (area / real_of_int total_area) \<longrightarrow>
              classify_room_type_enhanced area ar total_area = Inr (band_label_enhanced b ar)"
    using assms classify_rel_enhanced by blast
  have c: "area / real_of_int total_area = 0.15 \<longrightarrow>
              classify_room_type area ar total_area = Inr (band_label Medium ar)
            \<and> classify_room_type_enhanced area ar total_area
                = Inr (band_label_enhanced MediumRooms ar)"
  proof
    assume r: "area / real_of_int total_area = 0.15"
    have "in_band Medium 0.15" and "in_band_enhanced MediumRooms 0.15" by simp_all
    then show "classify_room_type area ar total_area = Inr (band_label Medium ar)
            \<and> classify_room_type_enhanced area ar total_area
                = Inr (band_label_enhanced MediumRooms ar)"
      using assms r classify_rel classify_rel_enhanced by blast
  qed
  show ?thesis using a b c in_band_unique in_band_enhanced_unique by blast
qed

theorem classify_room_type_deterministic_witness:
  "(100::int) \<noteq> 0 \<and> (15::real) / real_of_int 100 = 0.15
   \<and> classify_room_type 15 1 100 = Inr ''office''
   \<and> classify_room_type_enhanced 15 1 100 = Inr ''conference''"
proof -
  have nz: "(100::int) \<noteq> 0" by simp
  have r: "(15::real) / real_of_int 100 = 0.15" by simp
  from classify_room_type_deterministic [OF nz, of 15 1] r
  have "classify_room_type 15 1 100 = Inr (band_label Medium 1)
      \<and> classify_room_type_enhanced 15 1 100 = Inr (band_label_enhanced MediumRooms 1)"
    by blast
  with nz r show ?thesis by simp
qed

text \<open>
  C10. Whenever the total area is not zero, both classifiers return a label, drawn from the
  nine labels of the seed-anchored variant and from the values of \<open>ROOM_TYPES\<close> in the
  wall-reconstruction variant. At total area zero the division raises
  \<open>ZeroDivisionError\<close> and no label is returned.
\<close>

theorem classify_room_type_total:
  "(total_area \<noteq> 0 \<longrightarrow>
      (\<exists>l \<in> seed_labels. classify_room_type area ar total_area = Inr l)
    \<and> (\<exists>l \<in> room_types_values. classify_room_type_enhanced area ar total_area = Inr l))
   \<and> classify_room_type area ar 0 = Inl ZeroDivisionError
   \<and> classify_room_type_enhanced area ar 0 = Inl ZeroDivisionError"
  using classify_room_type_label [of total_area area ar]
        classify_room_type_enhanced_label [of total_area area ar]
  by (simp add: classify_room_type_def classify_room_type_enhanced_def)

theorem classify_room_type_total_witness:
  "(120000::int) \<noteq> 0
   \<and> (\<exists>l \<in> seed_labels. classify_room_type 30000 2 120000 = Inr l)
   \<and> (\<exists>l \<in> room_types_values. classify_room_type_enhanced 30000 2 120000 = Inr l)
   \<and> classify_room_type 30000 2 120000 = Inr ''classroom''
   \<and> classify_room_type_enhanced 30000 2 120000 = Inr ''classroom''
   \<and> card room_types_values = 8"
proof -
  have nz: "(120000::int) \<noteq> 0" by simp
  from classify_room_type_total [of 120000 30000 2] nz
  have "(\<exists>l \<in> seed_labels. classify_room_type 30000 2 120000 = Inr l)
      \<and> (\<exists>l \<in> room_types_values. classify_room_type_enhanced 30000 2 120000 = Inr l)"
    by blast
  moreover have "classify_room_type 30000 2 120000 = Inr ''classroom''"
    by (simp add: classify_room_type_def)
  moreover have "classify_room_type_enhanced 30000 2 120000 = Inr ''classroom''"
    by (simp add: classify_room_type_enhanced_def room_types_get_simps)
  moreover have "card room_types_values = 8"
    by (simp add: room_types_values_def ROOM_TYPES_def)
  ultimately show ?thesis using nz by blast
qed

subsection \<open>Overlap resolver\<close>

lemma overlap_area_commute: "overlap_area a b = overlap_area b a"
  by (simp add: overlap_area_def Let_def min.commute max.commute)

text \<open>The inner loop with its break computes the quantified acceptance test.\<close>

lemma should_add_accepts: "should_add f room xs = accepts f xs room"
  by (induction xs) (auto simp: accepts_def)


lemma overlap_free_Nil: "overlap_free f []"
  by (simp add: overlap_free_def)

lemma overlap_free_snoc:
  assumes "overlap_free f xs" "accepts f xs r"
  shows "overlap_free f (xs @ [r])"
  unfolding overlap_free_def
proof (intro allI impI)
  fix i j assume h: "i \<noteq> j \<and> i < length (xs @ [r]) \<and> j < length (xs @ [r])"
  let ?ys = "xs @ [r]"
  consider "i < length xs" "j < length xs" | "i = length xs" "j < length xs"
    | "i < length xs" "j = length xs" using h by fastforce
  then show "real_of_int (overlap_area (?ys ! i) (?ys ! j))
               \<le> f * min (rp_area (?ys ! i)) (rp_area (?ys ! j))"
  proof cases
    case 1
    with assms(1) h show ?thesis by (simp add: overlap_free_def nth_append)
  next
    case 2
    then have "xs ! j \<in> set xs" by simp
    with assms(2)
    have "real_of_int (overlap_area r (xs ! j)) \<le> f * min (rp_area r) (rp_area (xs ! j))"
      by (simp add: accepts_def)
    with 2 show ?thesis by (simp add: nth_append)
  next
    case 3
    then have "xs ! i \<in> set xs" by simp
    with assms(2)
    have "real_of_int (overlap_area r (xs ! i)) \<le> f * min (rp_area r) (rp_area (xs ! i))"
      by (simp add: accepts_def)
    with 3 show ?thesis by (simp add: nth_append overlap_area_commute min.commute)
  qed
qed

lemma filter_loop_overlap_free:
  "overlap_free f acc \<Longrightarrow> overlap_free f (filter_loop f rooms acc)"
  by (induction rooms arbitrary: acc) (simp_all add: should_add_accepts overlap_free_snoc)

lemma set_filter_loop: "set (filter_loop f rooms acc) \<subseteq> set acc \<union> set rooms"
proof (induction rooms arbitrary: acc)
  case Nil
  show ?case by simp
next
  case (Cons room rest)
  have "set (filter_loop f (room # rest) acc)
          \<subseteq> set (if should_add f room acc then acc @ [room] else acc) \<union> set rest"
    using Cons.IH by simp
  also have "\<dots> \<subseteq> set acc \<union> set (room # rest)" by auto
  finally show ?case .
qed

lemma set_dedup_rooms: "set (dedup_rooms rooms) \<subseteq> set rooms"
  using set_filter_loop[of "0.7" "sorted_by_area_desc rooms" "[]"]
  by (simp add: dedup_rooms_def sorted_by_area_desc_def)

lemma set_remove_overlapping_rooms: "set (remove_overlapping_rooms rooms) \<subseteq> set rooms"
  using set_filter_loop[of "0.6" "sorted_by_area_desc rooms" "[]"]
  by (simp add: remove_overlapping_rooms_def sorted_by_area_desc_def)





lemma dedup_example:
  "dedup_rooms example_rooms = [example_room 0 0 100 100 10000, example_room 200 0 50 50 2500]"
  by (simp add: dedup_rooms_def example_rooms_def sorted_by_area_desc_def example_room_def
        overlap_area_def Let_def)

lemma remove_example:
  "remove_overlapping_rooms example_rooms
     = [example_room 0 0 100 100 10000, example_room 200 0 50 50 2500]"
  by (simp add: remove_overlapping_rooms_def example_rooms_def sorted_by_area_desc_def
        example_room_def overlap_area_def Let_def)

text \<open>
  C1. In the list the overlap-resolution step returns, any two rooms at different positions
  have a bounding-box intersection of at most 0.7 times the smaller of their areas in the
  seed-anchored variant, and at most 0.6 times it in the wall-reconstruction variant.
\<close>

theorem overlap_invariant:
  "(\<forall>i j. i \<noteq> j \<and> i < length (dedup_rooms rooms) \<and> j < length (dedup_rooms rooms) \<longrightarrow>
      real_of_int (overlap_area (dedup_rooms rooms ! i) (dedup_rooms rooms ! j))
        \<le> 0.7 * min (rp_area (dedup_rooms rooms ! i)) (rp_area (dedup_rooms rooms ! j)))
   \<and> (\<forall>i j. i \<noteq> j \<and> i < length (remove_overlapping_rooms rooms)
              \<and> j < length (remove_overlapping_rooms rooms) \<longrightarrow>
      real_of_int (overlap_area (remove_overlapping_rooms rooms ! i)
                                (remove_overlapping_rooms rooms ! j))
        \<le> 0.6 * min (rp_area (remove_overlapping_rooms rooms ! i))
                     (rp_area (remove_overlapping_rooms rooms ! j)))"
proof -
  have a: "overlap_free 0.7 (dedup_rooms rooms)"
    unfolding dedup_rooms_def by (rule filter_loop_overlap_free) (rule overlap_free_Nil)
  have b: "overlap_free 0.6 (remove_overlapping_rooms rooms)"
  proof (cases "rooms = []")
    case True
    then show ?thesis by (simp add: remove_overlapping_rooms_def overlap_free_Nil)
  next
    case False
    then show ?thesis
      by (simp add: remove_overlapping_rooms_def filter_loop_overlap_free overlap_free_Nil)
  qed
  from a b show ?thesis unfolding overlap_free_def by blast
qed

theorem overlap_invariant_witness:
  "dedup_rooms example_rooms = [example_room 0 0 100 100 10000, example_room 200 0 50 50 2500]
   \<and> (0::nat) \<noteq> 1 \<and> 0 < length (dedup_rooms example_rooms)
   \<and> 1 < length (dedup_rooms example_rooms)
   \<and> real_of_int (overlap_area (dedup_rooms example_rooms ! 0) (dedup_rooms example_rooms ! 1))
        \<le> 0.7 * min (rp_area (dedup_rooms example_rooms ! 0))
                     (rp_area (dedup_rooms example_rooms ! 1))
   \<and> 1 < length (remove_overlapping_rooms example_rooms)
   \<and> real_of_int (overlap_area (remove_overlapping_rooms example_rooms ! 0)
                                (remove_overlapping_rooms example_rooms ! 1))
        \<le> 0.6 * min (rp_area (remove_overlapping_rooms example_rooms ! 0))
                     (rp_area (remove_overlapping_rooms example_rooms ! 1))"
proof -
  have h: "(0::nat) \<noteq> 1 \<and> 0 < length (dedup_rooms example_rooms)
             \<and> 1 < length (dedup_rooms example_rooms)"
    by (simp add: dedup_example)
  have h': "(0::nat) \<noteq> 1 \<and> 0 < length (remove_overlapping_rooms example_rooms)
             \<and> 1 < length (remove_overlapping_rooms example_rooms)"
    by (simp add: remove_example)
  note inv = overlap_invariant [of example_rooms]
  have a: "real_of_int (overlap_area (dedup_rooms example_rooms ! 0)
                                     (dedup_rooms example_rooms ! 1))
        \<le> 0.7 * min (rp_area (dedup_rooms example_rooms ! 0))
                     (rp_area (dedup_rooms example_rooms ! 1))"
    by (rule inv [THEN conjunct1, rule_format, of 0 1]) (rule h)
  have b: "real_of_int (overlap_area (remove_overlapping_rooms example_rooms ! 0)
                                (remove_overlapping_rooms example_rooms ! 1))
        \<le> 0.6 * min (rp_area (remove_overlapping_rooms example_rooms ! 0))
                     (rp_area (remove_overlapping_rooms example_rooms ! 1))"
    by (rule inv [THEN conjunct2, rule_format, of 0 1]) (rule h')
  from h h' a b dedup_example show ?thesis by blast
qed



subsection \<open>Region locator\<close>

lemma first_seed_qualifies:
  "first_seed (fp_width img) (fp_height img) (threshold_binary 200 (fp_gray img)) (p # rest) =
     (if qualifies img p then Some p
      else first_seed (fp_width img) (fp_height img) (threshold_binary 200 (fp_gray img)) rest)"
  by (cases p) (simp add: qualifies_def)

lemma qualifies_light:
  "qualifies img (sx, sy) \<longleftrightarrow>
        0 \<le> sx \<and> sx < fp_width img \<and> 0 \<le> sy \<and> sy < fp_height img
        \<and> fp_gray img sy sx > 200"
  by (simp add: qualifies_def threshold_binary_def)

lemma select_seed_point_chain:
  "select_seed_point img (x, y, w, h) =
     (let cx = x + w div 2; cy = y + h div 2
      in if qualifies img (cx, cy - h) then (cx, cy - h)
         else if qualifies img (cx, cy + h) then (cx, cy + h)
         else if qualifies img (cx - w, cy) then (cx - w, cy)
         else if qualifies img (cx + w, cy) then (cx + w, cy)
         else (cx, cy))"
  unfolding select_seed_point_def Let_def prod.case first_seed_qualifies
  by (simp del: first_seed.simps(2))

text \<open>
  C4. With \<open>(cx, cy)\<close> the centre \<open>(x + w div 2, y + h div 2)\<close> of the hint box, the seed is the
  first of the points above, below, left and right of the centre, in that order, that lies
  inside the image on a pixel that the threshold at 200 turns to 255; when none of the four
  qualifies the seed is the centre itself, whatever its pixel is.
\<close>

theorem select_seed_point_priority:
  "select_seed_point img (x, y, w, h) =
     (let cx = x + w div 2; cy = y + h div 2
      in if qualifies img (cx, cy - h) then (cx, cy - h)
         else if qualifies img (cx, cy + h) then (cx, cy + h)
         else if qualifies img (cx - w, cy) then (cx - w, cy)
         else if qualifies img (cx + w, cy) then (cx + w, cy)
         else (cx, cy))
   \<and> (qualifies img (sx, sy) \<longleftrightarrow>
        0 \<le> sx \<and> sx < fp_width img \<and> 0 \<le> sy \<and> sy < fp_height img
        \<and> fp_gray img sy sx > 200)"
  using select_seed_point_chain qualifies_light by blast

theorem select_seed_point_priority_witness:
  "\<not> qualifies wall_image (45, 35) \<and> \<not> qualifies wall_image (45, 55)
   \<and> \<not> qualifies wall_image (35, 45) \<and> \<not> qualifies wall_image (55, 45)
   \<and> select_seed_point wall_image (40, 40, 10, 10) = (45, 45)
   \<and> \<not> qualifies half_wall_image (45, 35) \<and> qualifies half_wall_image (45, 55)
   \<and> select_seed_point half_wall_image (40, 40, 10, 10) = (45, 55)"
proof -
  have q: "\<not> qualifies wall_image (45, 35) \<and> \<not> qualifies wall_image (45, 55)
   \<and> \<not> qualifies wall_image (35, 45) \<and> \<not> qualifies wall_image (55, 45)"
    by (simp add: qualifies_def wall_image_def threshold_binary_def)
  have q': "\<not> qualifies half_wall_image (45, 35) \<and> qualifies half_wall_image (45, 55)"
    by (simp add: qualifies_def half_wall_image_def threshold_binary_def)
  have a: "select_seed_point wall_image (40, 40, 10, 10) = (45, 45)"
    using q by (simp add: select_seed_point_priority [THEN conjunct1] Let_def)
  have b: "select_seed_point half_wall_image (40, 40, 10, 10) = (45, 55)"
    using q' by (simp add: select_seed_point_priority [THEN conjunct1] Let_def)
  from q q' a b show ?thesis by blast
qed

lemma max_by_key_greatest:
  "max_by_key key best cs \<in> set (best # cs)
   \<and> (\<forall>c' \<in> set (best # cs). key c' \<le> key (max_by_key key best cs))"
proof (induction cs arbitrary: best)
  case Nil
  show ?case by simp
next
  case (Cons c cs)
  from Cons.IH [of "if key c > key best then c else best"]
  show ?case by (auto split: if_splits)
qed

lemma get_room_contour_None:
  "get_room_contour img region = None
     \<longleftrightarrow> fp_room_mask_contours img (select_seed_point img region) region = []"
  by (simp add: get_room_contour_def Let_def split: list.splits)

lemma get_room_contour_Some:
  assumes "get_room_contour img region = Some c"
  shows "c \<in> set (fp_room_mask_contours img (select_seed_point img region) region)
       \<and> (\<forall>c' \<in> set (fp_room_mask_contours img (select_seed_point img region) region).
             cv_contourArea c' \<le> cv_contourArea c)"
proof (cases "fp_room_mask_contours img (select_seed_point img region) region")
  case Nil
  with assms show ?thesis by (simp add: get_room_contour_def Let_def)
next
  case (Cons d ds)
  with assms have "c = max_by_key cv_contourArea d ds"
    by (simp add: get_room_contour_def Let_def)
  with max_by_key_greatest [of cv_contourArea d ds] Cons show ?thesis by simp
qed

lemma detect_rooms_skip:
  assumes "get_room_contour img region = None"
  shows "detect_rooms img uuids (region # rest) rooms = detect_rooms img uuids rest rooms"
  using assms by simp

text \<open>
  C7. \<open>get_room_contour\<close> returns \<open>None\<close> exactly when the patched room mask has no contours,
  and otherwise a contour of the mask whose area is greatest; on \<open>None\<close> the caller moves to
  the next hint with the room list unchanged and raises nothing.
\<close>

theorem get_room_contour_option:
  "(get_room_contour img region = None
      \<longleftrightarrow> fp_room_mask_contours img (select_seed_point img region) region = [])
   \<and> (\<forall>c. get_room_contour img region = Some c \<longrightarrow>
         c \<in> set (fp_room_mask_contours img (select_seed_point img region) region)
       \<and> (\<forall>c' \<in> set (fp_room_mask_contours img (select_seed_point img region) region).
             cv_contourArea c' \<le> cv_contourArea c))
   \<and> (get_room_contour img region = None \<longrightarrow>
         detect_rooms img uuids (region # rest) rooms = detect_rooms img uuids rest rooms
       \<and> detect_rooms img uuids [region] rooms = Inr rooms)"
proof -
  have "get_room_contour img region = None \<longrightarrow>
         detect_rooms img uuids (region # rest) rooms = detect_rooms img uuids rest rooms
       \<and> detect_rooms img uuids [region] rooms = Inr rooms"
    using detect_rooms_skip [of img region uuids rest rooms]
      detect_rooms_skip [of img region uuids "[]" rooms] by simp
  then show ?thesis
    using get_room_contour_None [of img region] get_room_contour_Some [of img region]
    by blast
qed

theorem get_room_contour_option_witness:
  "fp_room_mask_contours wall_image (select_seed_point wall_image (40, 40, 10, 10))
       (40, 40, 10, 10) = []
   \<and> get_room_contour wall_image (40, 40, 10, 10) = None
   \<and> detect_rooms wall_image example_uuids [(40, 40, 10, 10)] [] = Inr []
   \<and> get_room_contour two_contour_image (20, 20, 10, 5) = Some big_contour
   \<and> big_contour \<in> set (fp_room_mask_contours two_contour_image
         (select_seed_point two_contour_image (20, 20, 10, 5)) (20, 20, 10, 5))
   \<and> cv_contourArea small_contour \<le> cv_contourArea big_contour"
proof -
  have e: "fp_room_mask_contours wall_image (select_seed_point wall_image (40, 40, 10, 10))
       (40, 40, 10, 10) = []"
    by (simp add: wall_image_def)
  note t = get_room_contour_option [of wall_image "(40, 40, 10, 10)" example_uuids "[]" "[]"]
  from t e have n: "get_room_contour wall_image (40, 40, 10, 10) = None" by blast
  from t n have d: "detect_rooms wall_image example_uuids [(40, 40, 10, 10)] [] = Inr []"
    by blast
  have s: "get_room_contour two_contour_image (20, 20, 10, 5) = Some big_contour"
    by (simp add: get_room_contour_def two_contour_image_def Let_def small_contour_def
          big_contour_def)
  note t' = get_room_contour_option [of two_contour_image "(20, 20, 10, 5)" example_uuids "[]" "[]"]
  from t' s have m: "big_contour \<in> set (fp_room_mask_contours two_contour_image
         (select_seed_point two_contour_image (20, 20, 10, 5)) (20, 20, 10, 5))
     \<and> (\<forall>c' \<in> set (fp_room_mask_contours two_contour_image
         (select_seed_point two_contour_image (20, 20, 10, 5)) (20, 20, 10, 5)).
           cv_contourArea c' \<le> cv_contourArea big_contour)"
    by blast
  have "small_contour \<in> set (fp_room_mask_contours two_contour_image
         (select_seed_point two_contour_image (20, 20, 10, 5)) (20, 20, 10, 5))"
    by (simp add: two_contour_image_def)
  with m have "cv_contourArea small_contour \<le> cv_contourArea big_contour" by blast
  with e n d s m show ?thesis by blast
qed

subsection \<open>Polygon builder and orchestrator\<close>

lemma py_int_band:
  assumes "t * 0.003 < a" "a < t * 0.6"
  shows "t * 0.003 - 1 < real_of_int (py_int a) \<and> real_of_int (py_int a) < t * 0.6"
proof -
  from assms have "t * 0.003 < t * 0.6" by (rule less_trans)
  then have "0 < t" by simp
  then have "0 \<le> t * 0.003" by simp
  from le_less_trans [OF this assms(1)] have "0 \<le> a" by simp
  then have "py_int a = \<lfloor>a\<rfloor>" by (simp add: py_int_def)
  moreover have "real_of_int \<lfloor>a\<rfloor> \<le> a" and "a - 1 < real_of_int \<lfloor>a\<rfloor>" by linarith+
  ultimately show ?thesis using assms by linarith
qed

lemma detect_rooms_step:
  assumes "get_room_contour img region = Some contour"
    and "cv_boundingRect contour = (x, y, w, h)"
  shows "detect_rooms img uuids (region # rest) rooms =
     (if real_of_int (fp_height img * fp_width img) * 0.003 < cv_contourArea contour
         \<and> cv_contourArea contour < real_of_int (fp_height img * fp_width img) * 0.6
         \<and> 0.1 < aspect_of w h \<and> aspect_of w h < 10
      then (case classify_room_type (cv_contourArea contour) (aspect_of w h)
                   (fp_height img * fp_width img) of
              Inl e \<Rightarrow> Inl e
            | Inr rtype \<Rightarrow>
                detect_rooms img uuids rest
                  (rooms @
                   [\<lparr>rp_contour = cv_points contour,
                     rp_x = x, rp_y = y, rp_width = w, rp_height = h,
                     rp_area = real_of_int (py_int (cv_contourArea contour)),
                     rp_aspect_ratio = aspect_of w h,
                     room_type = rtype,
                     room_id = ''room-'' @ take 8 (uuids (length rooms)),
                     room_name = ''Room '' @ str_nat (length rooms + 1),
                     room_confidence = 0.85\<rparr>]))
      else detect_rooms img uuids rest rooms)"
  using assms by (simp add: Let_def)

lemma detect_rooms_reject:
  assumes "get_room_contour img region = Some contour"
    and "cv_boundingRect contour = (x, y, w, h)"
    and "\<not> (real_of_int (fp_height img * fp_width img) * 0.003 < cv_contourArea contour
         \<and> cv_contourArea contour < real_of_int (fp_height img * fp_width img) * 0.6
         \<and> 0.1 < aspect_of w h \<and> aspect_of w h < 10)"
  shows "detect_rooms img uuids (region # rest) rooms = detect_rooms img uuids rest rooms"
  unfolding detect_rooms_step [OF assms(1,2)] using assms(3) by (rule if_not_P)

lemma detect_rooms_accept:
  assumes "get_room_contour img region = Some contour"
    and "cv_boundingRect contour = (x, y, w, h)"
    and "real_of_int (fp_height img * fp_width img) * 0.003 < cv_contourArea contour
         \<and> cv_contourArea contour < real_of_int (fp_height img * fp_width img) * 0.6
         \<and> 0.1 < aspect_of w h \<and> aspect_of w h < 10"
  shows "detect_rooms img uuids (region # rest) rooms =
           (case classify_room_type (cv_contourArea contour) (aspect_of w h)
                   (fp_height img * fp_width img) of
              Inl e \<Rightarrow> Inl e
            | Inr rtype \<Rightarrow>
                detect_rooms img uuids rest
                  (rooms @
                   [\<lparr>rp_contour = cv_points contour,
                     rp_x = x, rp_y = y, rp_width = w, rp_height = h,
                     rp_area = real_of_int (py_int (cv_contourArea contour)),
                     rp_aspect_ratio = aspect_of w h,
                     room_type = rtype,
                     room_id = ''room-'' @ take 8 (uuids (length rooms)),
                     room_name = ''Room '' @ str_nat (length rooms + 1),
                     room_confidence = 0.85\<rparr>]))"
  unfolding detect_rooms_step [OF assms(1,2)] using assms(3) by (rule if_P)

lemma detect_rooms_band:
  assumes "detect_rooms img uuids regions rooms0 = Inr rooms"
    and "\<forall>r \<in> set rooms0. seed_band (fp_height img * fp_width img) r"
  shows "\<forall>r \<in> set rooms. seed_band (fp_height img * fp_width img) r"
  using assms
proof (induction regions arbitrary: rooms0)
  case Nil
  then show ?case by simp
next
  case (Cons region rest)
  show ?case
  proof (cases "get_room_contour img region")
    case None
    with Cons.prems have "detect_rooms img uuids rest rooms0 = Inr rooms" by simp
    with Cons.IH Cons.prems(2) show ?thesis by blast
  next
    case (Some contour)
    obtain x y w h where br: "cv_boundingRect contour = (x, y, w, h)"
      by (cases "cv_boundingRect contour") auto
    let ?T = "fp_height img * fp_width img"
    show ?thesis
    proof (cases "real_of_int ?T * 0.003 < cv_contourArea contour
         \<and> cv_contourArea contour < real_of_int ?T * 0.6
         \<and> 0.1 < aspect_of w h \<and> aspect_of w h < 10")
      case False
      from Cons.prems(1) have "detect_rooms img uuids rest rooms0 = Inr rooms"
        unfolding detect_rooms_reject [OF Some br False] .
      with Cons.IH Cons.prems(2) show ?thesis by blast
    next
      case True
      note acc = detect_rooms_accept [OF Some br True, of uuids rest rooms0]
      show ?thesis
      proof (cases "classify_room_type (cv_contourArea contour) (aspect_of w h) ?T")
        case (Inl e)
        with acc Cons.prems(1) show ?thesis by simp
      next
        case (Inr rtype)
        let ?room = "\<lparr>rp_contour = cv_points contour,
                     rp_x = x, rp_y = y, rp_width = w, rp_height = h,
                     rp_area = real_of_int (py_int (cv_contourArea contour)),
                     rp_aspect_ratio = aspect_of w h,
                     room_type = rtype,
                     room_id = ''room-'' @ take 8 (uuids (length rooms0)),
                     room_name = ''Room '' @ str_nat (length rooms0 + 1),
                     room_confidence = 0.85\<rparr>"
        from acc Inr Cons.prems(1)
        have d: "detect_rooms img uuids rest (rooms0 @ [?room]) = Inr rooms" by simp
        have "seed_band ?T ?room"
          using True py_int_band [of "real_of_int ?T" "cv_contourArea contour"]
          by (simp add: seed_band_def)
        with Cons.prems(2) have "\<forall>r \<in> set (rooms0 @ [?room]). seed_band ?T r" by simp
        with Cons.IH [OF d] show ?thesis by blast
      qed
    qed
  qed
qed

lemma detect_rooms_total: "\<exists>rooms. detect_rooms img uuids regions rooms0 = Inr rooms"
proof (induction regions arbitrary: rooms0)
  case Nil
  show ?case by simp
next
  case (Cons region rest)
  show ?case
  proof (cases "get_room_contour img region")
    case None
    with Cons.IH [of rooms0] show ?thesis by simp
  next
    case (Some contour)
    obtain x y w h where br: "cv_boundingRect contour = (x, y, w, h)"
      by (cases "cv_boundingRect contour") auto
    let ?T = "fp_height img * fp_width img"
    show ?thesis
    proof (cases "real_of_int ?T * 0.003 < cv_contourArea contour
         \<and> cv_contourArea contour < real_of_int ?T * 0.6
         \<and> 0.1 < aspect_of w h \<and> aspect_of w h < 10")
      case False
      show ?thesis
        unfolding detect_rooms_reject [OF Some br False] by (rule Cons.IH)
    next
      case True
      have "?T \<noteq> 0"
      proof
        assume "?T = 0"
        with True show False by auto
      qed
      then obtain l where l: "classify_room_type (cv_contourArea contour) (aspect_of w h) ?T = Inr l"
        using classify_room_type_label by blast
      show ?thesis
        unfolding detect_rooms_accept [OF Some br True] l sum.case by (rule Cons.IH)
    qed
  qed
qed

lemma room_polygons_of_band:
  "\<forall>p \<in> set (room_polygons_of img cs). wall_band (wp_height img * wp_width img) p"
proof (induction cs)
  case Nil
  show ?case by simp
next
  case (Cons c cs)
  obtain x y w h where br: "cv_boundingRect (wp_approxPolyDP img c) = (x, y, w, h)"
    by (cases "cv_boundingRect (wp_approxPolyDP img c)") auto
  let ?T = "wp_height img * wp_width img"
  let ?p = "\<lparr>rp_contour = cv_points (wp_approxPolyDP img c),
             rp_x = x, rp_y = y, rp_width = w, rp_height = h,
             rp_area = cv_contourArea c, rp_aspect_ratio = aspect_of w h\<rparr>"
  show ?case
  proof (cases "(real_of_int ?T * 0.003 < cv_contourArea c \<and> cv_contourArea c < real_of_int ?T * 0.5)
                 \<and> (0.2 < aspect_of w h \<and> aspect_of w h < 5.0)")
    case True
    then have "room_polygons_of img (c # cs) = ?p # room_polygons_of img cs"
      using br by (simp add: Let_def)
    moreover from True have "wall_band ?T ?p" by (simp add: wall_band_def)
    ultimately show ?thesis using Cons.IH by simp
  next
    case False
    then have "room_polygons_of img (c # cs) = room_polygons_of img cs"
      using br by (auto simp add: Let_def)
    then show ?thesis using Cons.IH by simp
  qed
qed

lemma annotate_rooms_band:
  assumes "annotate_rooms total_area uuids k ps = Inr rs"
    and "\<forall>p \<in> set ps. wall_band t p"
  shows "\<forall>r \<in> set rs. wall_band t r"
  using assms
proof (induction ps arbitrary: k rs)
  case Nil
  then show ?case by simp
next
  case (Cons p ps)
  from Cons.prems(1) obtain rtype rs' where
    c: "classify_room_type_enhanced (rp_area p) (rp_aspect_ratio p) total_area = Inr rtype"
    and a: "annotate_rooms total_area uuids (k + 2) ps = Inr rs'"
    and r: "rs = \<lparr>rp_contour = rp_contour p,
                     rp_x = rp_x p, rp_y = rp_y p,
                     rp_width = rp_width p, rp_height = rp_height p,
                     rp_area = rp_area p, rp_aspect_ratio = rp_aspect_ratio p,
                     room_type = rtype,
                     room_id = ''room-'' @ take 8 (uuids k),
                     room_name = ''Room '' @ capitalize rtype @ '' '' @ take 4 (uuids (k + 1)),
                     room_confidence = 0.85\<rparr> # rs'"
    by (auto split: sum.splits)
  from Cons.IH [OF a] Cons.prems(2) have "\<forall>r \<in> set rs'. wall_band t r" by simp
  moreover from Cons.prems(2) have "wall_band t p" by simp
  ultimately show ?case unfolding r by (simp add: wall_band_def)
qed

lemma annotate_rooms_total:
  assumes "total_area \<noteq> 0 \<or> ps = []"
  shows "\<exists>rs. annotate_rooms total_area uuids k ps = Inr rs"
  using assms
proof (induction ps arbitrary: k)
  case Nil
  show ?case by simp
next
  case (Cons p ps)
  then have nz: "total_area \<noteq> 0" by simp
  then obtain l where
    "classify_room_type_enhanced (rp_area p) (rp_aspect_ratio p) total_area = Inr l"
    using classify_room_type_enhanced_label by blast
  moreover from Cons.IH [of "k + 2"] nz obtain rs where
    "annotate_rooms total_area uuids (k + 2) ps = Inr rs" by blast
  ultimately show ?case by simp
qed

lemma annotate_rooms_Nil_iff:
  "annotate_rooms total_area uuids k ps = Inr [] \<longleftrightarrow> ps = []"
  by (cases ps) (auto split: sum.splits)

lemma find_room_polygons_nonzero:
  assumes "find_room_polygons img \<noteq> []"
  shows "wp_height img * wp_width img \<noteq> 0"
proof -
  from assms obtain p where "p \<in> set (find_room_polygons img)"
    by (cases "find_room_polygons img") auto
  then have "wall_band (wp_height img * wp_width img) p"
    using room_polygons_of_band by (simp add: find_room_polygons_def)
  then show ?thesis by (auto simp: wall_band_def)
qed

lemma process_floorplan_rooms:
  assumes "process_floorplan path floor_type uuids (Decoded img) = Inr (res, rooms)"
  shows "\<exists>rooms0. detect_rooms img uuids (fp_text_regions img) [] = Inr rooms0
           \<and> rooms = dedup_rooms rooms0
           \<and> res_rooms res = map (\<lambda>room. without_contour (room_items room)) rooms
           \<and> res_processingComplete res"
  using assms
  by (auto simp: process_floorplan_def load_image_def Let_def split: sum.splits)

lemma process_floor_plan_rooms:
  assumes "process_floor_plan path floor_type uuids (Decoded img) = Inr (res, rooms)"
  shows "\<exists>rooms0. annotate_rooms (wp_height img * wp_width img) uuids 0
                     (find_room_polygons img) = Inr rooms0
           \<and> rooms = remove_overlapping_rooms rooms0
           \<and> res_rooms res = map (\<lambda>room. without_contour (room_items_enhanced room)) rooms
           \<and> res_processingComplete res"
  using assms
  by (auto simp: process_floor_plan_def load_image_def Let_def split: sum.splits)

lemma str_nat_1: "str_nat (Suc 0) = ''1''"
  by (subst str_nat.simps) simp

lemma py_int_sliver: "py_int (241 / 2) = 120"
  by (simp add: py_int_def)

lemma detect_sliver:
  "detect_rooms sliver_image example_uuids (fp_text_regions sliver_image) [] = Inr [sliver_room]"
  by (simp add: sliver_image_def get_room_contour_def sliver_contour_def Let_def
        aspect_of_def classify_room_type_def py_int_sliver str_nat_1 example_uuids_def
        sliver_room_def)

lemma dedup_single: "dedup_rooms [r] = [r]"
  by (simp add: dedup_rooms_def sorted_by_area_desc_def)

lemma remove_single: "remove_overlapping_rooms [r] = [r]"
  by (simp add: remove_overlapping_rooms_def sorted_by_area_desc_def)

lemma office_plan_rooms:
  "\<exists>res r. process_floor_plan ''plan.png'' ''ground'' example_uuids (Decoded office_plan)
              = Inr (res, [r]) \<and> rp_area r = 30000 \<and> room_type r = ''office''"
  by (simp add: process_floor_plan_def load_image_def find_room_polygons_def office_plan_def
        office_contour_def Let_def aspect_of_def classify_room_type_enhanced_def
        room_types_get_simps remove_single)

text \<open>
  C3, as the code has it. Every room the seed-anchored pipeline returns has an aspect ratio
  strictly between 0.1 and 10 and a stored area strictly between \<open>0.003 * total_area - 1\<close> and
  \<open>0.6 * total_area\<close>: the filter tests the measured contour area against the band, strictly,
  and the room then stores its truncation to an integer. Every room the wall-reconstruction
  pipeline returns has its area strictly between \<open>0.003 * total_area\<close> and
  \<open>0.5 * total_area\<close> and its aspect ratio strictly between 0.2 and 5. A contour whose measured
  area or aspect ratio is outside the seed-anchored band adds no room.
\<close>

theorem area_and_aspect_bands:
  "(process_floorplan path floor_type uuids (Decoded img) = Inr (res, rooms) \<longrightarrow>
      (\<forall>r \<in> set rooms. seed_band (fp_height img * fp_width img) r))
   \<and> (process_floor_plan path floor_type uuids (Decoded wimg) = Inr (wres, wrooms) \<longrightarrow>
      (\<forall>r \<in> set wrooms. wall_band (wp_height wimg * wp_width wimg) r))
   \<and> (get_room_contour img region = Some contour \<and> cv_boundingRect contour = (x, y, w, h)
       \<and> \<not> (real_of_int (fp_height img * fp_width img) * 0.003 < cv_contourArea contour
            \<and> cv_contourArea contour < real_of_int (fp_height img * fp_width img) * 0.6
            \<and> 0.1 < aspect_of w h \<and> aspect_of w h < 10) \<longrightarrow>
       detect_rooms img uuids (region # rest) acc = detect_rooms img uuids rest acc)"
proof -
  have a: "process_floorplan path floor_type uuids (Decoded img) = Inr (res, rooms) \<longrightarrow>
      (\<forall>r \<in> set rooms. seed_band (fp_height img * fp_width img) r)"
  proof
    assume "process_floorplan path floor_type uuids (Decoded img) = Inr (res, rooms)"
    from process_floorplan_rooms [OF this] obtain rooms0 where
      d: "detect_rooms img uuids (fp_text_regions img) [] = Inr rooms0"
      and r: "rooms = dedup_rooms rooms0" by blast
    from detect_rooms_band [OF d] have "\<forall>r \<in> set rooms0. seed_band (fp_height img * fp_width img) r"
      by simp
    with r set_dedup_rooms [of rooms0]
    show "\<forall>r \<in> set rooms. seed_band (fp_height img * fp_width img) r" by blast
  qed
  have b: "process_floor_plan path floor_type uuids (Decoded wimg) = Inr (wres, wrooms) \<longrightarrow>
      (\<forall>r \<in> set wrooms. wall_band (wp_height wimg * wp_width wimg) r)"
  proof
    assume "process_floor_plan path floor_type uuids (Decoded wimg) = Inr (wres, wrooms)"
    from process_floor_plan_rooms [OF this] obtain rooms0 where
      d: "annotate_rooms (wp_height wimg * wp_width wimg) uuids 0
            (find_room_polygons wimg) = Inr rooms0"
      and r: "wrooms = remove_overlapping_rooms rooms0" by blast
    have "\<forall>p \<in> set (find_room_polygons wimg). wall_band (wp_height wimg * wp_width wimg) p"
      using room_polygons_of_band by (simp add: find_room_polygons_def)
    from annotate_rooms_band [OF d this] r set_remove_overlapping_rooms [of rooms0]
    show "\<forall>r \<in> set wrooms. wall_band (wp_height wimg * wp_width wimg) r" by blast
  qed
  have c: "get_room_contour img region = Some contour \<and> cv_boundingRect contour = (x, y, w, h)
       \<and> \<not> (real_of_int (fp_height img * fp_width img) * 0.003 < cv_contourArea contour
            \<and> cv_contourArea contour < real_of_int (fp_height img * fp_width img) * 0.6
            \<and> 0.1 < aspect_of w h \<and> aspect_of w h < 10) \<longrightarrow>
       detect_rooms img uuids (region # rest) acc = detect_rooms img uuids rest acc"
    using detect_rooms_reject by blast
  from a b c show ?thesis by blast
qed

theorem area_and_aspect_bands_witness:
  "process_floorplan ''plan.png'' ''unknown'' example_uuids (Decoded sliver_image)
     = Inr (\<lparr>res_source = ''plan.png'', res_width = 401, res_height = 100,
              res_floor = ''unknown'',
              res_rooms = [without_contour (room_items sliver_room)],
              res_processingComplete = True\<rparr>,
            [sliver_room])
   \<and> seed_band (fp_height sliver_image * fp_width sliver_image) sliver_room
   \<and> (\<exists>res r. process_floor_plan ''plan.png'' ''ground'' example_uuids (Decoded office_plan)
              = Inr (res, [r])
          \<and> wall_band (wp_height office_plan * wp_width office_plan) r)
   \<and> get_room_contour reject_image (11, 11, 10, 10) = Some small_contour
   \<and> cv_boundingRect small_contour = (60, 60, 11, 11)
   \<and> \<not> (real_of_int (fp_height reject_image * fp_width reject_image) * 0.003
            < cv_contourArea small_contour)
   \<and> detect_rooms reject_image example_uuids [(11, 11, 10, 10)] [] = Inr []"
proof -
  let ?res = "\<lparr>res_source = ''plan.png'', res_width = 401, res_height = 100,
              res_floor = ''unknown'',
              res_rooms = [without_contour (room_items sliver_room)],
              res_processingComplete = True\<rparr>"
  have p: "process_floorplan ''plan.png'' ''unknown'' example_uuids (Decoded sliver_image)
     = Inr (?res, [sliver_room])"
    unfolding process_floorplan_def load_image_def
    by (simp add: detect_sliver dedup_single) (simp add: sliver_image_def)
  from area_and_aspect_bands [THEN conjunct1, rule_format, OF p]
  have a: "seed_band (fp_height sliver_image * fp_width sliver_image) sliver_room" by simp
  from office_plan_rooms obtain res r where
    w: "process_floor_plan ''plan.png'' ''ground'' example_uuids (Decoded office_plan)
          = Inr (res, [r])" by blast
  from area_and_aspect_bands [THEN conjunct2, THEN conjunct1, rule_format, OF w]
  have b: "wall_band (wp_height office_plan * wp_width office_plan) r" by simp
  have g: "get_room_contour reject_image (11, 11, 10, 10) = Some small_contour"
    by (simp add: get_room_contour_def reject_image_def Let_def)
  have br: "cv_boundingRect small_contour = (60, 60, 11, 11)"
    by (simp add: small_contour_def)
  have n: "\<not> (real_of_int (fp_height reject_image * fp_width reject_image) * 0.003
            < cv_contourArea small_contour)"
    by (simp add: reject_image_def sliver_image_def small_contour_def)
  then have n': "\<not> (real_of_int (fp_height reject_image * fp_width reject_image) * 0.003
            < cv_contourArea small_contour
         \<and> cv_contourArea small_contour
            < real_of_int (fp_height reject_image * fp_width reject_image) * 0.6
         \<and> 0.1 < aspect_of 11 11 \<and> aspect_of 11 11 < 10)" by blast
  from area_and_aspect_bands [THEN conjunct2, THEN conjunct2, rule_format,
       of reject_image "(11, 11, 10, 10)" small_contour 60 60 11 11 example_uuids "[]" "[]"]
    g br n'
  have d: "detect_rooms reject_image example_uuids [(11, 11, 10, 10)] [] = Inr []" by simp
  from p a w b g br n d show ?thesis by blast
qed

text \<open>
  C3, as stated, fails on the seed-anchored variant: in the 401 by 100 image the contour of
  area 120.5 passes the filter (the lower bound is 120.3), and the room returned for it has
  the stored area 120, below \<open>0.003 * total_area\<close>.
\<close>

theorem stored_area_below_band:
  "process_floorplan ''plan.png'' ''unknown'' example_uuids (Decoded sliver_image)
     = Inr (\<lparr>res_source = ''plan.png'', res_width = 401, res_height = 100,
              res_floor = ''unknown'',
              res_rooms = [without_contour (room_items sliver_room)],
              res_processingComplete = True\<rparr>,
            [sliver_room])
   \<and> rp_area sliver_room < 0.003 * real_of_int (fp_height sliver_image * fp_width sliver_image)"
proof -
  have "process_floorplan ''plan.png'' ''unknown'' example_uuids (Decoded sliver_image)
     = Inr (\<lparr>res_source = ''plan.png'', res_width = 401, res_height = 100,
              res_floor = ''unknown'',
              res_rooms = [without_contour (room_items sliver_room)],
              res_processingComplete = True\<rparr>,
            [sliver_room])"
    unfolding process_floorplan_def load_image_def
    by (simp add: detect_sliver dedup_single) (simp add: sliver_image_def)
  moreover have "rp_area sliver_room
      < 0.003 * real_of_int (fp_height sliver_image * fp_width sliver_image)"
    by (simp add: sliver_room_def sliver_image_def)
  ultimately show ?thesis by blast
qed

lemma process_floorplan_completes:
  "\<exists>res rooms. process_floorplan path floor_type uuids (Decoded img) = Inr (res, rooms)
      \<and> res_processingComplete res
      \<and> (detect_rooms img uuids (fp_text_regions img) [] = Inr [] \<longrightarrow>
            rooms = [] \<and> res_rooms res = [])"
proof -
  obtain rooms0 where d: "detect_rooms img uuids (fp_text_regions img) [] = Inr rooms0"
    using detect_rooms_total by blast
  have e: "dedup_rooms [] = []" by (simp add: dedup_rooms_def sorted_by_area_desc_def)
  show ?thesis
    unfolding process_floorplan_def load_image_def using d e by (auto simp: Let_def)
qed

lemma process_floor_plan_completes:
  "\<exists>res rooms. process_floor_plan path floor_type uuids (Decoded img) = Inr (res, rooms)
      \<and> res_processingComplete res
      \<and> (find_room_polygons img = [] \<longrightarrow> rooms = [] \<and> res_rooms res = [])"
proof -
  have "wp_height img * wp_width img \<noteq> 0 \<or> find_room_polygons img = []"
    using find_room_polygons_nonzero by blast
  from annotate_rooms_total [OF this] obtain rooms0 where
    d: "annotate_rooms (wp_height img * wp_width img) uuids 0 (find_room_polygons img)
          = Inr rooms0" by blast
  then have z: "find_room_polygons img = [] \<longrightarrow> rooms0 = []" by auto
  have e: "remove_overlapping_rooms [] = []" by (simp add: remove_overlapping_rooms_def)
  show ?thesis
    unfolding process_floor_plan_def load_image_def using d z e by (auto simp: Let_def)
qed

text \<open>
  C8, as the code has it. For every image that decodes, either pipeline completes with a
  result record whose \<open>processingComplete\<close> is true; when no candidate was found the record
  has an empty room list. The pipeline fails only when the image is missing
  (\<open>FileNotFoundError\<close>) or does not decode (\<open>ValueError\<close>).
\<close>

theorem zero_candidates_complete:
  "(\<exists>res rooms. process_floorplan path floor_type uuids (Decoded img) = Inr (res, rooms)
      \<and> res_processingComplete res
      \<and> (detect_rooms img uuids (fp_text_regions img) [] = Inr [] \<longrightarrow>
            rooms = [] \<and> res_rooms res = []))
   \<and> (\<exists>res rooms. process_floor_plan path floor_type uuids (Decoded wimg) = Inr (res, rooms)
      \<and> res_processingComplete res
      \<and> (find_room_polygons wimg = [] \<longrightarrow> rooms = [] \<and> res_rooms res = []))
   \<and> process_floorplan path floor_type uuids Missing = Inl FileNotFoundError
   \<and> process_floorplan path floor_type uuids Undecodable = Inl ValueError
   \<and> process_floor_plan path floor_type uuids Missing = Inl FileNotFoundError
   \<and> process_floor_plan path floor_type uuids Undecodable = Inl ValueError"
proof -
  have "process_floorplan path floor_type uuids Missing = Inl FileNotFoundError"
    and "process_floorplan path floor_type uuids Undecodable = Inl ValueError"
    by (simp_all add: process_floorplan_def load_image_def)
  moreover have "process_floor_plan path floor_type uuids Missing = Inl FileNotFoundError"
    and "process_floor_plan path floor_type uuids Undecodable = Inl ValueError"
    by (simp_all add: process_floor_plan_def load_image_def)
  ultimately show ?thesis
    using process_floorplan_completes [of path floor_type uuids img]
      process_floor_plan_completes [of path floor_type uuids wimg] by blast
qed

theorem zero_candidates_complete_witness:
  "detect_rooms blank_image example_uuids (fp_text_regions blank_image) [] = Inr []
   \<and> find_room_polygons blank_plan = []
   \<and> (\<exists>res. process_floorplan ''blank.png'' ''unknown'' example_uuids (Decoded blank_image)
               = Inr (res, [])
             \<and> res_processingComplete res \<and> res_rooms res = [])
   \<and> (\<exists>res. process_floor_plan ''blank.png'' ''unknown'' example_uuids (Decoded blank_plan)
               = Inr (res, [])
             \<and> res_processingComplete res \<and> res_rooms res = [])"
proof -
  have d: "detect_rooms blank_image example_uuids (fp_text_regions blank_image) [] = Inr []"
    by (simp add: blank_image_def)
  have f: "find_room_polygons blank_plan = []"
    by (simp add: find_room_polygons_def blank_plan_def)
  from zero_candidates_complete
         [of "''blank.png''" "''unknown''" example_uuids blank_image blank_plan] d f
  show ?thesis by blast
qed

text \<open>
  C8, as stated, fails: on an image with no text regions, and on a wall plan with no
  contours, there are zero candidates and the pipeline completes with an empty room list.
\<close>

theorem zero_candidates_not_failed:
  "detect_rooms blank_image example_uuids (fp_text_regions blank_image) [] = Inr []
   \<and> process_floorplan ''blank.png'' ''unknown'' example_uuids (Decoded blank_image)
       = Inr (\<lparr>res_source = ''blank.png'', res_width = 400, res_height = 300,
                res_floor = ''unknown'', res_rooms = [],
                res_processingComplete = True\<rparr>, [])
   \<and> find_room_polygons blank_plan = []
   \<and> process_floor_plan ''blank.png'' ''unknown'' example_uuids (Decoded blank_plan)
       = Inr (\<lparr>res_source = ''blank.png'', res_width = 400, res_height = 300,
                res_floor = ''unknown'', res_rooms = [],
                res_processingComplete = True, res_enhancedDetection = True\<rparr>, [])"
  by (simp add: process_floorplan_def process_floor_plan_def load_image_def blank_image_def
        blank_plan_def find_room_polygons_def dedup_rooms_def remove_overlapping_rooms_def
        sorted_by_area_desc_def)

lemma without_contour_items:
  "without_contour (room_items r) =
     [(''id'', PyStr (room_id r)),
      (''name'', PyStr (room_name r)),
      (''type'', PyStr (room_type r)),
      (''x'', PyInt (rp_x r)),
      (''y'', PyInt (rp_y r)),
      (''width'', PyInt (rp_width r)),
      (''height'', PyInt (rp_height r)),
      (''area'', PyInt (py_int (rp_area r))),
      (''aspect_ratio'', PyFloat (rp_aspect_ratio r)),
      (''confidence'', PyFloat (room_confidence r))]"
  by (simp add: without_contour_def room_items_def)

lemma without_contour_items_enhanced:
  "without_contour (room_items_enhanced r) =
     [(''x'', PyInt (rp_x r)),
      (''y'', PyInt (rp_y r)),
      (''width'', PyInt (rp_width r)),
      (''height'', PyInt (rp_height r)),
      (''area'', PyFloat (rp_area r)),
      (''aspect_ratio'', PyFloat (rp_aspect_ratio r)),
      (''type'', PyStr (room_type r)),
      (''id'', PyStr (room_id r)),
      (''name'', PyStr (room_name r)),
      (''confidence'', PyFloat (room_confidence r))]"
  by (simp add: without_contour_def room_items_enhanced_def)

lemma map_of_without_contour:
  "k \<noteq> ''contour'' \<Longrightarrow> map_of (without_contour (room_items r)) k = map_of (room_items r) k"
  unfolding without_contour_items by (simp add: room_items_def)

lemma map_of_without_contour_enhanced:
  "k \<noteq> ''contour'' \<Longrightarrow>
     map_of (without_contour (room_items_enhanced r)) k = map_of (room_items_enhanced r) k"
  unfolding without_contour_items_enhanced by (simp add: room_items_enhanced_def)

lemma process_floorplan_json:
  assumes "process_floorplan path floor_type uuids input = Inr (res, rooms)"
  shows "res_rooms res = map (\<lambda>room. without_contour (room_items room)) rooms"
proof (cases input)
  case (Decoded img)
  with assms process_floorplan_rooms show ?thesis by blast
qed (use assms in \<open>simp_all add: process_floorplan_def load_image_def\<close>)

lemma process_floor_plan_json:
  assumes "process_floor_plan path floor_type uuids input = Inr (res, rooms)"
  shows "res_rooms res = map (\<lambda>room. without_contour (room_items_enhanced room)) rooms"
proof (cases input)
  case (Decoded img)
  with assms process_floor_plan_rooms show ?thesis by blast
qed (use assms in \<open>simp_all add: process_floor_plan_def load_image_def\<close>)

text \<open>
  C9. The dictionary written for a room is the room's dictionary without the key
  \<open>contour\<close>: the ten other keys are present, in their order, each with the value it has in
  the room; every key other than \<open>contour\<close> looks up the same in both; \<open>contour\<close>, present
  in the room, is absent from the written dictionary. The \<open>rooms\<close> of the result record are
  these dictionaries of the returned rooms, in both variants.
\<close>

theorem external_room_frame:
  "without_contour (room_items r) =
     [(''id'', PyStr (room_id r)),
      (''name'', PyStr (room_name r)),
      (''type'', PyStr (room_type r)),
      (''x'', PyInt (rp_x r)),
      (''y'', PyInt (rp_y r)),
      (''width'', PyInt (rp_width r)),
      (''height'', PyInt (rp_height r)),
      (''area'', PyInt (py_int (rp_area r))),
      (''aspect_ratio'', PyFloat (rp_aspect_ratio r)),
      (''confidence'', PyFloat (room_confidence r))]
   \<and> without_contour (room_items_enhanced r) =
     [(''x'', PyInt (rp_x r)),
      (''y'', PyInt (rp_y r)),
      (''width'', PyInt (rp_width r)),
      (''height'', PyInt (rp_height r)),
      (''area'', PyFloat (rp_area r)),
      (''aspect_ratio'', PyFloat (rp_aspect_ratio r)),
      (''type'', PyStr (room_type r)),
      (''id'', PyStr (room_id r)),
      (''name'', PyStr (room_name r)),
      (''confidence'', PyFloat (room_confidence r))]
   \<and> (\<forall>k. k \<noteq> ''contour'' \<longrightarrow>
          map_of (without_contour (room_items r)) k = map_of (room_items r) k
        \<and> map_of (without_contour (room_items_enhanced r)) k
            = map_of (room_items_enhanced r) k)
   \<and> map_of (room_items r) ''contour'' = Some (PyPoints (rp_contour r))
   \<and> map_of (room_items_enhanced r) ''contour'' = Some (PyPoints (rp_contour r))
   \<and> map_of (without_contour (room_items r)) ''contour'' = None
   \<and> map_of (without_contour (room_items_enhanced r)) ''contour'' = None
   \<and> (process_floorplan path floor_type uuids input = Inr (res, rooms) \<longrightarrow>
         res_rooms res = map (\<lambda>room. without_contour (room_items room)) rooms)
   \<and> (process_floor_plan path floor_type uuids winput = Inr (wres, wrooms) \<longrightarrow>
         res_rooms wres = map (\<lambda>room. without_contour (room_items_enhanced room)) wrooms)"
proof -
  have "map_of (room_items r) ''contour'' = Some (PyPoints (rp_contour r))"
    by (simp add: room_items_def)
  moreover have "map_of (room_items_enhanced r) ''contour'' = Some (PyPoints (rp_contour r))"
    by (simp add: room_items_enhanced_def)
  moreover have "map_of (without_contour (room_items r)) ''contour'' = None"
    unfolding without_contour_items by simp
  moreover have "map_of (without_contour (room_items_enhanced r)) ''contour'' = None"
    unfolding without_contour_items_enhanced by simp
  ultimately show ?thesis
    using without_contour_items [of r] without_contour_items_enhanced [of r]
      map_of_without_contour [of _ r] map_of_without_contour_enhanced [of _ r]
      process_floorplan_json [of path floor_type uuids input res rooms]
      process_floor_plan_json [of path floor_type uuids winput wres wrooms]
    by blast
qed

theorem external_room_frame_witness:
  "''x'' \<noteq> ''contour''
   \<and> map_of (room_items sliver_room) ''x'' = Some (PyInt 10)
   \<and> map_of (without_contour (room_items sliver_room)) ''x'' = Some (PyInt 10)
   \<and> map_of (without_contour (room_items_enhanced sliver_room)) ''x'' = Some (PyInt 10)
   \<and> map_of (without_contour (room_items sliver_room)) ''contour'' = None
   \<and> process_floorplan ''plan.png'' ''unknown'' example_uuids (Decoded sliver_image)
       = Inr (\<lparr>res_source = ''plan.png'', res_width = 401, res_height = 100,
                res_floor = ''unknown'',
                res_rooms = [without_contour (room_items sliver_room)],
                res_processingComplete = True\<rparr>,
              [sliver_room])
   \<and> (\<exists>res r. process_floor_plan ''plan.png'' ''ground'' example_uuids (Decoded office_plan)
                 = Inr (res, [r])
             \<and> res_rooms res = [without_contour (room_items_enhanced r)])"
proof -
  note t = external_room_frame [of sliver_room]
  have k: "''x'' \<noteq> ''contour''" by simp
  have i: "map_of (room_items sliver_room) ''x'' = Some (PyInt 10)"
    and j: "map_of (room_items_enhanced sliver_room) ''x'' = Some (PyInt 10)"
    by (simp_all add: room_items_def room_items_enhanced_def sliver_room_def)
  from t k have "map_of (without_contour (room_items sliver_room)) ''x''
                   = map_of (room_items sliver_room) ''x''"
    and "map_of (without_contour (room_items_enhanced sliver_room)) ''x''
                   = map_of (room_items_enhanced sliver_room) ''x''" by blast+
  with i j have a: "map_of (without_contour (room_items sliver_room)) ''x'' = Some (PyInt 10)"
    and b: "map_of (without_contour (room_items_enhanced sliver_room)) ''x'' = Some (PyInt 10)"
    by simp_all
  from t have c: "map_of (without_contour (room_items sliver_room)) ''contour'' = None"
    by blast
  let ?res = "\<lparr>res_source = ''plan.png'', res_width = 401, res_height = 100,
              res_floor = ''unknown'',
              res_rooms = [without_contour (room_items sliver_room)],
              res_processingComplete = True\<rparr>"
  have p: "process_floorplan ''plan.png'' ''unknown'' example_uuids (Decoded sliver_image)
     = Inr (?res, [sliver_room])"
    unfolding process_floorplan_def load_image_def
    by (simp add: detect_sliver dedup_single) (simp add: sliver_image_def)
  from office_plan_rooms obtain res r where
    w: "process_floor_plan ''plan.png'' ''ground'' example_uuids (Decoded office_plan)
          = Inr (res, [r])" by blast
  from external_room_frame [where path = "''plan.png''" and floor_type = "''ground''"
         and uuids = example_uuids and winput = "Decoded office_plan" and wres = res
         and wrooms = "[r]"] w
  have "res_rooms res = map (\<lambda>room. without_contour (room_items_enhanced room)) [r]"
    by blast
  then have "res_rooms res = [without_contour (room_items_enhanced r)]" by simp
  with w k i a b c p show ?thesis by blast
qed

end
